theory Spec2Isabelle
  imports Complex_Main "HOL-Library.Sublist" "HOL-Library.AList"
begin

section \<open>Python values handled by the service\<close>

text \<open>
  The service (\<^verbatim>\<open>src/mqtt_service.py\<close>) works on values produced by
  \<^verbatim>\<open>json.load\<close>/\<^verbatim>\<open>json.loads\<close>: \<^verbatim>\<open>None\<close>, \<^verbatim>\<open>bool\<close>, \<^verbatim>\<open>int\<close>,
  \<^verbatim>\<open>float\<close>, \<^verbatim>\<open>str\<close>, \<^verbatim>\<open>list\<close> and \<^verbatim>\<open>dict\<close> with \<^verbatim>\<open>str\<close> keys.

  A number is kept with its exact value. Python compares \<^verbatim>\<open>int\<close> and \<^verbatim>\<open>float\<close>
  by exact value, so a finite float is the rational it denotes; the decoder also
  accepts \<^verbatim>\<open>Infinity\<close>, \<^verbatim>\<open>-Infinity\<close> and \<^verbatim>\<open>NaN\<close>.

  A \<^verbatim>\<open>dict\<close> is an association list in insertion order (the order in which
  \<^verbatim>\<open>.items()\<close> iterates); a key is looked up with \<^const>\<open>map_of\<close>. A \<^verbatim>\<open>str\<close> is a
  list of characters; only equality and the substring test are used on it.
\<close>

datatype pynum = Finite rat | PosInf | NegInf | NaN

datatype pyval =
    PNone
  | PBool bool
  | PInt int
  | PFloat pynum
  | PStr string
  | PList "pyval list"
  | PDict "(string \<times> pyval) list"

type_synonym pydict = "(string \<times> pyval) list"

text \<open>
  The exceptions that can leave the functions modelled here. \<open>JSONDecodeError\<close> is what
  \<^verbatim>\<open>json.loads\<close> raises on text that is not JSON; \<open>OtherError\<close> stands for any
  other exception of the decoder (for instance \<^verbatim>\<open>RecursionError\<close>).
\<close>

datatype error = JSONDecodeError | TypeError | KeyError | AttributeError | OtherError

subsection \<open>Numbers\<close>

text \<open>
  \<^verbatim>\<open>isinstance(v, (int, float))\<close>: true of \<^verbatim>\<open>int\<close>, of \<^verbatim>\<open>float\<close>, and of
  \<^verbatim>\<open>bool\<close>, which is a subclass of \<^verbatim>\<open>int\<close> (\<^verbatim>\<open>True\<close> is 1, \<^verbatim>\<open>False\<close> is 0).
  \<open>num_of\<close> returns the number such a value denotes and \<open>None\<close> for every other value.
\<close>

fun num_of :: "pyval \<Rightarrow> pynum option" where
  "num_of (PBool b) = Some (Finite (if b then 1 else 0))"
| "num_of (PInt i) = Some (Finite (of_int i))"
| "num_of (PFloat f) = Some f"
| "num_of _ = None"

text \<open>Comparison of two numbers; every comparison with \<^verbatim>\<open>NaN\<close> is false.\<close>

fun num_lt :: "pynum \<Rightarrow> pynum \<Rightarrow> bool" where
  "num_lt NaN _ = False"
| "num_lt _ NaN = False"
| "num_lt (Finite a) (Finite b) = (a < b)"
| "num_lt (Finite _) PosInf = True"
| "num_lt (Finite _) NegInf = False"
| "num_lt PosInf _ = False"
| "num_lt NegInf NegInf = False"
| "num_lt NegInf _ = True"

fun num_eq :: "pynum \<Rightarrow> pynum \<Rightarrow> bool" where
  "num_eq NaN _ = False"
| "num_eq _ NaN = False"
| "num_eq a b = (a = b)"

definition num_le :: "pynum \<Rightarrow> pynum \<Rightarrow> bool" where
  "num_le a b = (num_lt a b \<or> num_eq a b)"

definition num_gt :: "pynum \<Rightarrow> pynum \<Rightarrow> bool" where
  "num_gt a b = num_lt b a"

definition num_ge :: "pynum \<Rightarrow> pynum \<Rightarrow> bool" where
  "num_ge a b = num_le b a"

text \<open>
  \<^verbatim>\<open>a OP threshold\<close> for an ordering operator, where \<open>a\<close> is already known to be a
  number (the source evaluates the comparison only behind the \<^verbatim>\<open>isinstance\<close> test).
  Ordering a number against \<^verbatim>\<open>None\<close>, a \<^verbatim>\<open>str\<close>, a \<^verbatim>\<open>list\<close> or a
  \<^verbatim>\<open>dict\<close> raises \<^verbatim>\<open>TypeError\<close>.
\<close>

definition py_order :: "(pynum \<Rightarrow> pynum \<Rightarrow> bool) \<Rightarrow> pynum \<Rightarrow> pyval \<Rightarrow> error + bool" where
  "py_order cmp a threshold =
     (case num_of threshold of
        None \<Rightarrow> Inl TypeError
      | Some t \<Rightarrow> Inr (cmp a t))"

subsection \<open>Equality, truth value, membership, subscription\<close>

text \<open>
  \<^verbatim>\<open>x is y\<close>, as far as it can be observed through \<^verbatim>\<open>==\<close>: the elements of two
  containers are compared with \<^verbatim>\<open>x is y or x == y\<close>, which differs from
  \<^verbatim>\<open>x == y\<close> only on \<^verbatim>\<open>NaN\<close>, and every \<^verbatim>\<open>NaN\<close> the decoder returns is the
  one object \<^verbatim>\<open>json.decoder.NaN\<close>.
\<close>

definition py_is :: "pyval \<Rightarrow> pyval \<Rightarrow> bool" where
  "py_is x y = (x = PFloat NaN \<and> y = PFloat NaN)"

text \<open>
  \<^verbatim>\<open>x == y\<close>. Numbers (\<^verbatim>\<open>bool\<close> included) compare by value; values of different
  kinds are unequal; lists compare element by element; dicts compare by key, whatever the
  order. \<^verbatim>\<open>x != y\<close> is the negation on all of these types.
\<close>

function (sequential) py_eq :: "pyval \<Rightarrow> pyval \<Rightarrow> bool" where
  "py_eq PNone PNone = True"
| "py_eq (PStr s) (PStr t) = (s = t)"
| "py_eq (PList xs) (PList ys) =
     (length xs = length ys \<and>
      list_all (\<lambda>(v, w). py_is v w \<or> py_eq v w) (zip xs ys))"
| "py_eq (PDict d) (PDict e) =
     (length d = length e \<and>
      list_all (\<lambda>(k, v). case map_of e k of
                            None \<Rightarrow> False
                          | Some w \<Rightarrow> py_is v w \<or> py_eq v w) d)"
| "py_eq x y =
     (case (num_of x, num_of y) of
        (Some a, Some b) \<Rightarrow> num_eq a b
      | _ \<Rightarrow> False)"
  by pat_completeness auto

termination py_eq
proof (relation "measure (\<lambda>(x, y). size x)")
  show "wf (measure (\<lambda>(x, y). size x))"
    by simp
next
  fix xs ys :: "pyval list" and z :: "pyval \<times> pyval" and v w :: pyval
  assume "z \<in> set (zip xs ys)" and "(v, w) = z"
  then have "v \<in> set xs"
    by (auto dest: set_zip_leftD)
  then have "size v < Suc (size_list size xs)"
    by (induction xs) auto
  then show "((v, w), (PList xs, PList ys)) \<in> measure (\<lambda>(x, y). size x)"
    by simp
next
  fix d e :: pydict and z :: "string \<times> pyval" and k :: string and v w :: pyval
  assume "z \<in> set d" and "(k, v) = z" and "map_of e k = Some w"
  then have "(k, v) \<in> set d"
    by simp
  then have "size v < Suc (size_list (size_prod (\<lambda>_. 0) size) d)"
    by (induction d) auto
  then show "((v, w), (PDict d, PDict e)) \<in> measure (\<lambda>(x, y). size x)"
    by simp
qed

text \<open>The truth value of a value, as \<^verbatim>\<open>not conditions\<close> reads it.\<close>

fun py_truthy :: "pyval \<Rightarrow> bool" where
  "py_truthy PNone = False"
| "py_truthy (PBool b) = b"
| "py_truthy (PInt i) = (i \<noteq> 0)"
| "py_truthy (PFloat f) = (f \<noteq> Finite 0)"
| "py_truthy (PStr s) = (s \<noteq> [])"
| "py_truthy (PList xs) = (xs \<noteq> [])"
| "py_truthy (PDict d) = (d \<noteq> [])"

text \<open>\<^verbatim>\<open>d.get(key, default)\<close> on a dict.\<close>

definition dict_get :: "pydict \<Rightarrow> string \<Rightarrow> pyval \<Rightarrow> pyval" where
  "dict_get d key dflt = (case map_of d key of None \<Rightarrow> dflt | Some v \<Rightarrow> v)"

text \<open>
  \<^verbatim>\<open>key in data\<close> for a \<^verbatim>\<open>str\<close> key: a key test on a dict, a substring test on a
  \<^verbatim>\<open>str\<close>, an element test on a list, and \<^verbatim>\<open>TypeError\<close> on \<^verbatim>\<open>None\<close> and on
  numbers, which are not containers.
\<close>

fun py_contains :: "pyval \<Rightarrow> string \<Rightarrow> error + bool" where
  "py_contains (PDict d) key = Inr (map_of d key \<noteq> None)"
| "py_contains (PStr s) key = Inr (sublist key s)"
| "py_contains (PList xs) key = Inr (list_ex (\<lambda>x. py_eq x (PStr key)) xs)"
| "py_contains _ key = Inl TypeError"

text \<open>
  \<^verbatim>\<open>data[key]\<close> for a \<^verbatim>\<open>str\<close> key: the value on a dict (\<^verbatim>\<open>KeyError\<close> when the
  key is missing); \<^verbatim>\<open>TypeError\<close> on every other value, since a \<^verbatim>\<open>str\<close> and a
  \<^verbatim>\<open>list\<close> take integer indices only and the rest cannot be subscripted.
\<close>

fun py_getitem :: "pyval \<Rightarrow> string \<Rightarrow> error + pyval" where
  "py_getitem (PDict d) key = (case map_of d key of None \<Rightarrow> Inl KeyError | Some v \<Rightarrow> Inr v)"
| "py_getitem _ key = Inl TypeError"

section \<open>The condition evaluator: \<^verbatim>\<open>MQTTService.should_execute_script\<close>\<close>

text \<open>
  \<^verbatim>\<open>isinstance(actual_value, (int, float)) and actual_value OP threshold\<close>, the test of
  the four ordering branches: false when the payload value is not a number, otherwise the
  comparison, which raises when the threshold is not a number.
\<close>

definition ordered :: "(pynum \<Rightarrow> pynum \<Rightarrow> bool) \<Rightarrow> pyval \<Rightarrow> pyval \<Rightarrow> error + bool" where
  "ordered cmp actual_value threshold =
     (case num_of actual_value of
        None \<Rightarrow> Inr False
      | Some a \<Rightarrow> py_order cmp a threshold)"

text \<open>
  \<^verbatim>\<open>expected_value.get('threshold', expected_value.get('value'))\<close>.
\<close>

definition get_threshold :: "pydict \<Rightarrow> pyval" where
  "get_threshold expected_value =
     dict_get expected_value ''threshold'' (dict_get expected_value ''value'' PNone)"

text \<open>
  The branch \<^verbatim>\<open>if isinstance(expected_value, dict) and 'operator' in expected_value\<close>
  of the loop body. The result \<open>Inr False\<close> is the statement \<^verbatim>\<open>return False\<close>;
  \<open>Inr True\<close> is falling through to the next iteration. An operator that is none of the
  six falls through every \<^verbatim>\<open>elif\<close>.
\<close>

definition check_operator :: "pyval \<Rightarrow> pyval \<Rightarrow> pyval \<Rightarrow> error + bool" where
  "check_operator operator threshold actual_value =
     (if py_eq operator (PStr ''>'') then ordered num_gt actual_value threshold
      else if py_eq operator (PStr ''<'') then ordered num_lt actual_value threshold
      else if py_eq operator (PStr ''>='') then ordered num_ge actual_value threshold
      else if py_eq operator (PStr ''<='') then ordered num_le actual_value threshold
      else if py_eq operator (PStr ''=='') then Inr (py_eq actual_value threshold)
      else if py_eq operator (PStr ''!='') then Inr (\<not> py_eq actual_value threshold)
      else Inr True)"

text \<open>
  The dict test that selects the operator branch: \<open>Some\<close> of the dict when
  \<^verbatim>\<open>expected_value\<close> is a dict with the key \<^verbatim>\<open>'operator'\<close>.
\<close>

fun operator_term :: "pyval \<Rightarrow> pydict option" where
  "operator_term (PDict e) = (if map_of e ''operator'' \<noteq> None then Some e else None)"
| "operator_term _ = None"

text \<open>
  One iteration of \<^verbatim>\<open>for key, expected_value in conditions.items()\<close>, lines 144 to 175.
\<close>

definition check_condition :: "pyval \<Rightarrow> string \<Rightarrow> pyval \<Rightarrow> error + bool" where
  "check_condition data key expected_value =
     (case py_contains data key of
        Inl err \<Rightarrow> Inl err
      | Inr False \<Rightarrow> Inr False
      | Inr True \<Rightarrow>
          (case py_getitem data key of
             Inl err \<Rightarrow> Inl err
           | Inr actual_value \<Rightarrow>
               (case operator_term expected_value of
                  Some e \<Rightarrow>
                    check_operator (dict_get e ''operator'' PNone) (get_threshold e) actual_value
                | None \<Rightarrow> Inr (py_eq actual_value expected_value))))"

text \<open>The loop over the items, in the dict's order, and the final \<^verbatim>\<open>return True\<close>.\<close>

fun check_conditions :: "pyval \<Rightarrow> pydict \<Rightarrow> error + bool" where
  "check_conditions data [] = Inr True"
| "check_conditions data ((key, expected_value) # rest) =
     (case check_condition data key expected_value of
        Inl err \<Rightarrow> Inl err
      | Inr False \<Rightarrow> Inr False
      | Inr True \<Rightarrow> check_conditions data rest)"

text \<open>
  The \<^verbatim>\<open>try\<close> around \<^verbatim>\<open>json.loads(payload)\<close>. \<^verbatim>\<open>json.loads\<close> is the standard
  library's; its outcome on the payload is the argument \<open>loaded\<close> (\<open>Inr\<close> the decoded
  value, \<open>Inl\<close> the exception). Only \<^verbatim>\<open>JSONDecodeError\<close> is caught, and then the
  payload text itself becomes \<^verbatim>\<open>data\<close>.
\<close>

fun parse_payload :: "string \<Rightarrow> error + pyval \<Rightarrow> error + pyval" where
  "parse_payload payload (Inr v) = Inr v"
| "parse_payload payload (Inl JSONDecodeError) = Inr (PStr payload)"
| "parse_payload payload (Inl err) = Inl err"

text \<open>
  \<^verbatim>\<open>should_execute_script(self, topic_config, payload)\<close>. \<^verbatim>\<open>conditions.items()\<close>
  raises \<^verbatim>\<open>AttributeError\<close> when the configured conditions are a non-empty value that is
  not a dict.
\<close>

definition should_execute_script :: "pydict \<Rightarrow> string \<Rightarrow> error + pyval \<Rightarrow> error + bool" where
  "should_execute_script topic_config payload loaded =
     (let conditions = dict_get topic_config ''conditions'' (PDict []) in
      if \<not> py_truthy conditions then Inr True
      else
        (case parse_payload payload loaded of
           Inl err \<Rightarrow> Inl err
         | Inr data \<Rightarrow>
             (case conditions of
                PDict items \<Rightarrow> check_conditions data items
              | _ \<Rightarrow> Inl AttributeError)))"

section \<open>Configuration merge: \<^verbatim>\<open>MQTTService.merge_configs\<close>\<close>

text \<open>
  \<^verbatim>\<open>merge_configs(self, default, user)\<close>: \<^verbatim>\<open>result = default.copy()\<close>, then one
  step for every item of \<^verbatim>\<open>user\<close> in order (\<open>dflt\<close> is the parameter \<^verbatim>\<open>default\<close>, \<open>val\<close>
  the loop variable \<^verbatim>\<open>value\<close>). \<^verbatim>\<open>result[key] = ...\<close> replaces the value
  of a key the dict has and appends a new key at the end, which is \<^const>\<open>AList.update\<close>.
\<close>

function merge_configs :: "pydict \<Rightarrow> pydict \<Rightarrow> pydict" where
  "merge_configs dflt user =
     fold (\<lambda>(key, val) result.
             case (map_of result key, val) of
               (Some (PDict sub), PDict value') \<Rightarrow>
                 AList.update key (PDict (merge_configs sub value')) result
             | _ \<Rightarrow> AList.update key val result)
          user dflt"
  by pat_completeness auto

termination merge_configs
proof (relation "measure (\<lambda>(dflt, user). size_list (size_prod (\<lambda>_. 0) size) user)")
  show "wf (measure (\<lambda>(dflt :: pydict, user :: pydict).
              size_list (size_prod (\<lambda>_. 0) size) user))"
    by simp
next
  fix dflt user result sub value' :: pydict and z :: "string \<times> pyval" and key :: string
    and val val' found :: pyval and looked :: "pyval option"
  assume "z \<in> set user" and "(key, val) = z" and "(looked, val') = (map_of result key, val)"
    and "looked = Some found" and "found = PDict sub" and "val' = PDict value'"
  then have "(key, PDict value') \<in> set user"
    by simp
  then have "size (PDict value') < Suc (size_list (size_prod (\<lambda>_. 0) size) user)"
    by (induction user) auto
  then show "((sub, value'), (dflt, user))
               \<in> measure (\<lambda>(dflt, user). size_list (size_prod (\<lambda>_. 0) size) user)"
    by simp
qed

declare merge_configs.simps [simp del]

section \<open>The dispatcher: \<^verbatim>\<open>MQTTService.execute_script\<close>\<close>

text \<open>
  What \<^verbatim>\<open>execute_script\<close> reads from its surroundings: the paths for which
  \<^verbatim>\<open>os.path.exists\<close> holds, \<^verbatim>\<open>os.environ\<close>, \<^verbatim>\<open>sys.executable\<close>, and the outcome
  of the one call of \<^verbatim>\<open>subprocess.run\<close> (which either completes with a return code and
  the two captured streams, or raises \<^verbatim>\<open>TimeoutExpired\<close>, or raises another exception,
  kept with its text). The paths that carry the execute permission are part of the file
  system too; the function never asks for them.
\<close>

datatype run_result = Completed int string string | TimeoutExpired | Raised string

record os_world =
  existing_paths :: "string list"
  executable_paths :: "string list"
  os_environ :: "(string \<times> string) list"
  sys_executable :: string
  subprocess_run :: run_result

text \<open>
  What it does to its surroundings: the calls of the logger, and the calls of
  \<^verbatim>\<open>subprocess.run\<close> with their argument vector and environment.
\<close>

datatype log_level = DEBUG | INFO | WARNING | ERROR

record service_state =
  logged :: "(log_level \<times> string) list"
  run_calls :: "(string list \<times> (string \<times> string) list) list"

text \<open>The decimal text of an integer, as an f-string prints a return code.\<close>

fun str_nat :: "nat \<Rightarrow> string" where
  "str_nat n =
     (if n < 10 then [char_of (48 + n)]
      else str_nat (n div 10) @ [char_of (48 + n mod 10)])"

declare str_nat.simps [simp del]

definition str_int :: "int \<Rightarrow> string" where
  "str_int i = (if i < 0 then ''-'' @ str_nat (nat (- i)) else str_nat (nat i))"

definition log_call :: "log_level \<Rightarrow> string \<Rightarrow> service_state \<Rightarrow> service_state" where
  "log_call level msg st = st\<lparr>logged := logged st @ [(level, msg)]\<rparr>"

text \<open>
  \<^verbatim>\<open>execute_script(self, script_path, topic, payload)\<close>. Every exception of the
  \<^verbatim>\<open>try\<close> block is caught by one of the two handlers, so the function returns the new
  state on every path.
\<close>

definition execute_script ::
    "os_world \<Rightarrow> service_state \<Rightarrow> string \<Rightarrow> string \<Rightarrow> string \<Rightarrow> service_state" where
  "execute_script w st script_path topic payload =
     (if script_path \<notin> set (existing_paths w) then
        log_call ERROR (''Script not found: '' @ script_path) st
      else
        (let env = AList.update ''MQTT_PAYLOAD'' payload
                     (AList.update ''MQTT_TOPIC'' topic (os_environ w));
             st1 = st\<lparr>run_calls := run_calls st @ [([sys_executable w, script_path], env)]\<rparr>
         in case subprocess_run w of
              Completed returncode stdout stderr \<Rightarrow>
                (if returncode = 0 then
                   (let st2 = log_call INFO
                                (''Script '' @ script_path @ '' executed successfully'') st1
                    in if stdout \<noteq> [] then log_call DEBUG (''Script output: '' @ stdout) st2
                       else st2)
                 else
                   (let st2 = log_call ERROR
                                (''Script '' @ script_path @ '' failed with return code ''
                                   @ str_int returncode) st1
                    in if stderr \<noteq> [] then log_call ERROR (''Script error: '' @ stderr) st2
                       else st2))
            | TimeoutExpired \<Rightarrow>
                log_call ERROR (''Script '' @ script_path @ '' timed out'') st1
            | Raised e \<Rightarrow>
                log_call ERROR (''Error executing script '' @ script_path @ '': '' @ e) st1))"

section \<open>The specification's reading of a condition set\<close>

text \<open>
  The specification (section 4.1) describes the evaluator as a conjunction over the
  terms of the condition set. The definitions of this section follow its words, to be
  compared with the loop of the source.

  A term is an operator term when it is a record with an \<^verbatim>\<open>operator\<close>, and a literal
  otherwise. A literal requires equality with the field's value. An ordering operator
  requires the field's value and the threshold to be numbers in the stated order;
  \<^verbatim>\<open>==\<close> and \<^verbatim>\<open>!=\<close> take any values. The specification names no other operator;
  a term with another operator constrains nothing.
\<close>

definition both_numbers :: "(pynum \<Rightarrow> pynum \<Rightarrow> bool) \<Rightarrow> pyval \<Rightarrow> pyval \<Rightarrow> bool" where
  "both_numbers cmp v threshold =
     (case (num_of v, num_of threshold) of
        (Some a, Some t) \<Rightarrow> cmp a t
      | _ \<Rightarrow> False)"

definition term_satisfied :: "pyval \<Rightarrow> pyval \<Rightarrow> bool" where
  "term_satisfied v t =
     (case operator_term t of
        None \<Rightarrow> py_eq v t
      | Some e \<Rightarrow>
          (let operator = dict_get e ''operator'' PNone; threshold = get_threshold e in
           if operator = PStr ''>'' then both_numbers num_gt v threshold
           else if operator = PStr ''<'' then both_numbers num_lt v threshold
           else if operator = PStr ''>='' then both_numbers num_ge v threshold
           else if operator = PStr ''<='' then both_numbers num_le v threshold
           else if operator = PStr ''=='' then py_eq v threshold
           else if operator = PStr ''!='' then \<not> py_eq v threshold
           else True))"

text \<open>
  Every pair of the condition set has its field in the record \<open>d\<close> and its term satisfied
  by the field's value.
\<close>

definition conditions_hold :: "pydict \<Rightarrow> pydict \<Rightarrow> bool" where
  "conditions_hold d C =
     list_all (\<lambda>(field, t). case map_of d field of
                               None \<Rightarrow> False
                             | Some v \<Rightarrow> term_satisfied v t) C"

text \<open>The four ordering operators, and the terms whose threshold they can compare.\<close>

definition ordering_operators :: "pyval list" where
  "ordering_operators = [PStr ''>'', PStr ''<'', PStr ''>='', PStr ''<='']"

definition numeric_threshold :: "pyval \<Rightarrow> bool" where
  "numeric_threshold t =
     (case operator_term t of
        None \<Rightarrow> True
      | Some e \<Rightarrow>
          dict_get e ''operator'' PNone \<in> set ordering_operators
            \<longrightarrow> num_of (get_threshold e) \<noteq> None)"

section \<open>Properties of the condition evaluator\<close>

subsection \<open>Auxiliary facts\<close>

lemma py_eq_PStr: "py_eq x (PStr s) = (x = PStr s)"
  by (cases x) auto

lemma py_eq_PStr_left: "py_eq (PStr s) x = (x = PStr s)"
  by (cases x) auto

lemma should_execute_script_loaded:
  "dict_get topic_config ''conditions'' (PDict []) = PDict C \<Longrightarrow>
   should_execute_script topic_config payload (Inr data) = check_conditions data C"
  by (cases C) (simp_all add: should_execute_script_def)

lemma should_execute_script_not_json:
  "dict_get topic_config ''conditions'' (PDict []) = PDict ((key, expected_value) # rest) \<Longrightarrow>
   should_execute_script topic_config payload (Inl JSONDecodeError) =
     (if sublist key payload then Inl TypeError else Inr False)"
  by (simp add: should_execute_script_def check_condition_def)

lemma check_condition_dict:
  "check_condition (PDict d) field t =
     (case map_of d field of
        None \<Rightarrow> Inr False
      | Some v \<Rightarrow>
          (case operator_term t of
             Some e \<Rightarrow> check_operator (dict_get e ''operator'' PNone) (get_threshold e) v
           | None \<Rightarrow> Inr (py_eq v t)))"
  by (simp add: check_condition_def split: option.splits)

lemma ordered_True: "ordered cmp v threshold = Inr True \<longleftrightarrow> both_numbers cmp v threshold"
  by (simp add: ordered_def py_order_def both_numbers_def split: option.splits)

lemma ordered_numeric:
  "num_of threshold \<noteq> None \<Longrightarrow> ordered cmp v threshold = Inr (both_numbers cmp v threshold)"
  by (auto simp add: ordered_def py_order_def both_numbers_def split: option.splits)

lemma check_condition_True:
  "check_condition (PDict d) field t = Inr True \<longleftrightarrow>
     (case map_of d field of None \<Rightarrow> False | Some v \<Rightarrow> term_satisfied v t)"
  by (simp add: check_condition_dict check_operator_def term_satisfied_def py_eq_PStr
        ordered_True Let_def split: option.splits)

lemma check_condition_numeric:
  "numeric_threshold t \<Longrightarrow>
   check_condition (PDict d) field t =
     Inr (case map_of d field of None \<Rightarrow> False | Some v \<Rightarrow> term_satisfied v t)"
  by (auto simp add: check_condition_dict check_operator_def term_satisfied_def py_eq_PStr
        ordered_numeric numeric_threshold_def ordering_operators_def Let_def
      split: option.splits)

lemma check_conditions_True:
  "check_conditions (PDict d) C = Inr True \<longleftrightarrow> conditions_hold d C"
proof (induction C)
  case Nil
  show ?case by (simp add: conditions_hold_def)
next
  case (Cons p C)
  obtain field t where p: "p = (field, t)"
    by (cases p)
  show ?case
  proof (cases "check_condition (PDict d) field t")
    case (Inl err)
    with check_condition_True [of d field t] show ?thesis
      by (simp add: p conditions_hold_def)
  next
    case (Inr b)
    with check_condition_True [of d field t] Cons.IH show ?thesis
      by (cases b) (simp_all add: p conditions_hold_def)
  qed
qed

lemma check_conditions_numeric:
  "list_all (\<lambda>(field, t). numeric_threshold t) C \<Longrightarrow>
   check_conditions (PDict d) C = Inr (conditions_hold d C)"
proof (induction C)
  case Nil
  show ?case by (simp add: conditions_hold_def)
next
  case (Cons p C)
  obtain field t where p: "p = (field, t)"
    by (cases p)
  from Cons.prems have "numeric_threshold t"
    and rest: "list_all (\<lambda>(field, t). numeric_threshold t) C"
    by (simp_all add: p)
  then have "check_condition (PDict d) field t =
      Inr (case map_of d field of None \<Rightarrow> False | Some v \<Rightarrow> term_satisfied v t)"
    by (simp add: check_condition_numeric)
  with Cons.IH [OF rest] show ?case
    by (simp add: p conditions_hold_def split: bool.splits)
qed

lemma conditions_hold_absent:
  "list_ex (\<lambda>(field, t). map_of d field = None) C \<Longrightarrow> \<not> conditions_hold d C"
  by (induction C) (auto simp add: conditions_hold_def)

lemma check_conditions_append:
  "check_conditions data (C1 @ C2) =
     (case check_conditions data C1 of
        Inl err \<Rightarrow> Inl err
      | Inr False \<Rightarrow> Inr False
      | Inr True \<Rightarrow> check_conditions data C2)"
  by (induction C1) (auto split: sum.splits bool.splits)

lemma should_execute_script_items:
  "dict_get topic_config ''conditions'' (PDict []) = PDict C \<Longrightarrow>
   should_execute_script topic_config payload loaded =
     (if C = [] then Inr True
      else case parse_payload payload loaded of
             Inl err \<Rightarrow> Inl err
           | Inr data \<Rightarrow> check_conditions data C)"
  by (simp add: should_execute_script_def split: sum.splits)

lemma get_threshold_eq:
  "get_threshold e =
     (case map_of e ''threshold'' of
        Some t \<Rightarrow> t
      | None \<Rightarrow> (case map_of e ''value'' of Some t \<Rightarrow> t | None \<Rightarrow> PNone))"
  by (simp add: get_threshold_def dict_get_def split: option.splits)

subsection \<open>The empty condition set\<close>

text \<open>
  Claim C4. With an empty condition set (the key \<^verbatim>\<open>conditions\<close> absent from the topic's
  configuration, or present with the value \<^verbatim>\<open>{}\<close>), \<^verbatim>\<open>should_execute_script\<close> returns
  \<^verbatim>\<open>True\<close> for every payload, whatever the decoder makes of it.
\<close>

theorem empty_conditions_always_execute:
  "dict_get topic_config ''conditions'' (PDict []) = PDict [] \<Longrightarrow>
   should_execute_script topic_config payload loaded = Inr True"
  by (simp add: should_execute_script_def)

theorem empty_conditions_always_execute_witness:
  "dict_get [(''script'', PStr ''/usr/local/bin/handle_device_status.py'')]
      ''conditions'' (PDict []) = PDict [] \<and>
   should_execute_script [(''script'', PStr ''/usr/local/bin/handle_device_status.py'')]
      ''not-json'' (Inl JSONDecodeError) = Inr True"
  using empty_conditions_always_execute
          [of "[(''script'', PStr ''/usr/local/bin/handle_device_status.py'')]"
              "''not-json''" "Inl JSONDecodeError"]
  by (simp add: dict_get_def)

subsection \<open>A payload that is not JSON\<close>

text \<open>
  Claim C1 says that a payload the decoder rejects, against a non-empty condition set, gives
  \<^verbatim>\<open>False\<close> and no exception. The source keeps the payload text as \<^verbatim>\<open>data\<close>, so
  \<^verbatim>\<open>key not in data\<close> is a substring test: with the conditions \<^verbatim>\<open>{"status": "offline"}\<close>
  of the default configuration and the payload text \<^verbatim>\<open>status=offline\<close>, the key occurs in
  the text, the early return is not taken, and \<^verbatim>\<open>data[key]\<close> raises \<^verbatim>\<open>TypeError\<close>.
\<close>

theorem non_json_payload_raises:
  "should_execute_script
     [(''script'', PStr ''/usr/local/bin/handle_device_status.py''),
      (''conditions'', PDict [(''status'', PStr ''offline'')])]
     ''status=offline'' (Inl JSONDecodeError) = Inl TypeError"
  by (simp add: should_execute_script_def dict_get_def check_condition_def sublist_code)

subsection \<open>The conjunction of the terms\<close>

text \<open>
  Claim C3, as the source has it. For a payload that decodes to a record and a condition
  set \<open>C\<close>, \<^verbatim>\<open>should_execute_script\<close> returns \<^verbatim>\<open>True\<close> exactly when every pair of
  \<open>C\<close> has its field in the record and its term satisfied by the field's value. When every
  ordering term of \<open>C\<close> has a number as its threshold, the function returns \<^verbatim>\<open>False\<close> in
  every other case, in particular whenever a field of \<open>C\<close> is absent from the record.
\<close>

theorem conditions_conjunction:
  assumes "dict_get topic_config ''conditions'' (PDict []) = PDict C"
  shows "(should_execute_script topic_config payload (Inr (PDict d)) = Inr True
            \<longleftrightarrow> conditions_hold d C) \<and>
         (list_all (\<lambda>(field, t). numeric_threshold t) C \<longrightarrow>
            should_execute_script topic_config payload (Inr (PDict d))
              = Inr (conditions_hold d C)) \<and>
         (list_all (\<lambda>(field, t). numeric_threshold t) C \<longrightarrow>
          list_ex (\<lambda>(field, t). map_of d field = None) C \<longrightarrow>
            should_execute_script topic_config payload (Inr (PDict d)) = Inr False)"
proof -
  have run: "should_execute_script topic_config payload (Inr (PDict d))
               = check_conditions (PDict d) C"
    using assms by (rule should_execute_script_loaded)
  show ?thesis
    unfolding run
    by (simp add: check_conditions_True check_conditions_numeric conditions_hold_absent)
qed

theorem conditions_conjunction_witness:
  \<open>dict_get
      [(''script'', PStr ''/usr/local/bin/handle_device_status.py''),
       (''conditions'', PDict [(''status'', PStr ''offline''),
          (''temperature'', PDict [(''operator'', PStr ''>''), (''threshold'', PInt 30)])])]
      ''conditions'' (PDict [])
    = PDict [(''status'', PStr ''offline''),
          (''temperature'', PDict [(''operator'', PStr ''>''), (''threshold'', PInt 30)])] \<and>
   list_all (\<lambda>(field, t). numeric_threshold t)
     [(''status'', PStr ''offline''),
      (''temperature'', PDict [(''operator'', PStr ''>''), (''threshold'', PInt 30)])] \<and>
   list_ex (\<lambda>(field, t).
        map_of [(''status'', PStr ''offline''), (''device_id'', PStr ''d1'')] field = None)
     [(''status'', PStr ''offline''),
      (''temperature'', PDict [(''operator'', PStr ''>''), (''threshold'', PInt 30)])] \<and>
   should_execute_script
      [(''script'', PStr ''/usr/local/bin/handle_device_status.py''),
       (''conditions'', PDict [(''status'', PStr ''offline''),
          (''temperature'', PDict [(''operator'', PStr ''>''), (''threshold'', PInt 30)])])]
      ''{"status":"offline","device_id":"d1"}''
      (Inr (PDict [(''status'', PStr ''offline''), (''device_id'', PStr ''d1'')]))
    = Inr False\<close>
  using conditions_conjunction
    [of "[(''script'', PStr ''/usr/local/bin/handle_device_status.py''),
       (''conditions'', PDict [(''status'', PStr ''offline''),
          (''temperature'', PDict [(''operator'', PStr ''>''), (''threshold'', PInt 30)])])]"
        "[(''status'', PStr ''offline''),
          (''temperature'', PDict [(''operator'', PStr ''>''), (''threshold'', PInt 30)])]"
        \<open>''{"status":"offline","device_id":"d1"}''\<close>
        "[(''status'', PStr ''offline''), (''device_id'', PStr ''d1'')]"]
  by (simp add: dict_get_def numeric_threshold_def get_threshold_def ordering_operators_def
        conditions_hold_def)

text \<open>
  Without the condition on the thresholds the second half fails: the conditions
  \<^verbatim>\<open>{"temperature": {"operator": ">="}, "status": "online"}\<close> have no threshold for
  \<^verbatim>\<open>>=\<close>, so it is \<^verbatim>\<open>None\<close>; on the payload \<^verbatim>\<open>{"temperature": 20}\<close> the field
  \<^verbatim>\<open>status\<close> is absent, but the first term is evaluated first and \<^verbatim>\<open>20 >= None\<close>
  raises \<^verbatim>\<open>TypeError\<close>.
\<close>

theorem conditions_conjunction_counterexample:
  \<open>map_of [(''temperature'', PInt 20)] ''status'' = None \<and>
   should_execute_script
     [(''script'', PStr ''/usr/local/bin/handle_temperature.py''),
      (''conditions'', PDict [(''temperature'', PDict [(''operator'', PStr ''>='')]),
                              (''status'', PStr ''online'')])]
     ''{"temperature": 20}'' (Inr (PDict [(''temperature'', PInt 20)]))
   = Inl TypeError\<close>
  by (simp add: should_execute_script_def dict_get_def check_condition_def check_operator_def
        get_threshold_def ordered_def py_order_def)

subsection \<open>Ordering operators\<close>

text \<open>
  Claim C2, as the source has it. The condition set is one operator term with one of
  \<^verbatim>\<open>>\<close>, \<^verbatim>\<open><\<close>, \<^verbatim>\<open>>=\<close>, \<^verbatim>\<open><=\<close> on a field the payload has. The result is
  \<^verbatim>\<open>True\<close> only when the field value and the threshold are both numbers (\<^verbatim>\<open>int\<close>,
  \<^verbatim>\<open>float\<close> or \<^verbatim>\<open>bool\<close>). A field value that is not a number gives \<^verbatim>\<open>False\<close> and
  no exception, whatever the threshold is. When the field value and the threshold are both
  numbers, the result is the comparison of the two: for \<^verbatim>\<open>>\<close> it is \<^verbatim>\<open>True\<close> exactly
  when the value is greater than the threshold.
\<close>

theorem ordering_term:
  assumes "dict_get topic_config ''conditions'' (PDict []) = PDict [(field, PDict e)]"
    and "map_of e ''operator'' = Some operator"
    and "operator \<in> set ordering_operators"
    and "map_of d field = Some v"
  shows "(should_execute_script topic_config payload (Inr (PDict d)) = Inr True \<longrightarrow>
            num_of v \<noteq> None \<and> num_of (get_threshold e) \<noteq> None) \<and>
         (num_of v = None \<longrightarrow>
            should_execute_script topic_config payload (Inr (PDict d)) = Inr False) \<and>
         (\<forall>a t. num_of v = Some a \<and> num_of (get_threshold e) = Some t \<longrightarrow>
            should_execute_script topic_config payload (Inr (PDict d)) =
              Inr (if operator = PStr ''>'' then num_gt a t
                   else if operator = PStr ''<'' then num_lt a t
                   else if operator = PStr ''>='' then num_ge a t
                   else num_le a t))"
proof -
  have run: "should_execute_script topic_config payload (Inr (PDict d))
               = check_operator operator (get_threshold e) v"
    using assms
    by (simp add: should_execute_script_loaded check_condition_dict dict_get_def
          split: sum.splits bool.splits)
  show ?thesis
    unfolding run using assms(3)
    by (auto simp add: check_operator_def ordering_operators_def ordered_def py_order_def
          py_eq_PStr split: option.splits)
qed

theorem ordering_term_witness:
  \<open>dict_get
      [(''script'', PStr ''/usr/local/bin/handle_temperature.py''),
       (''conditions'', PDict [(''temperature'',
          PDict [(''operator'', PStr ''>''), (''threshold'', PInt 30)])])]
      ''conditions'' (PDict [])
    = PDict [(''temperature'', PDict [(''operator'', PStr ''>''), (''threshold'', PInt 30)])] \<and>
   map_of [(''operator'', PStr ''>''), (''threshold'', PInt 30)] ''operator''
    = Some (PStr ''>'') \<and>
   PStr ''>'' \<in> set ordering_operators \<and>
   map_of [(''temperature'', PFloat (Finite (65 / 2)))] ''temperature''
    = Some (PFloat (Finite (65 / 2))) \<and>
   num_of (PFloat (Finite (65 / 2))) = Some (Finite (65 / 2)) \<and>
   num_of (get_threshold [(''operator'', PStr ''>''), (''threshold'', PInt 30)])
    = Some (Finite 30) \<and>
   should_execute_script
      [(''script'', PStr ''/usr/local/bin/handle_temperature.py''),
       (''conditions'', PDict [(''temperature'',
          PDict [(''operator'', PStr ''>''), (''threshold'', PInt 30)])])]
      ''{"temperature": 32.5}'' (Inr (PDict [(''temperature'', PFloat (Finite (65 / 2)))]))
    = Inr True \<and>
   map_of [(''temperature'', PStr ''hot'')] ''temperature'' = Some (PStr ''hot'') \<and>
   num_of (PStr ''hot'') = None \<and>
   should_execute_script
      [(''script'', PStr ''/usr/local/bin/handle_temperature.py''),
       (''conditions'', PDict [(''temperature'',
          PDict [(''operator'', PStr ''>''), (''threshold'', PInt 30)])])]
      ''{"temperature": "hot"}'' (Inr (PDict [(''temperature'', PStr ''hot'')]))
    = Inr False\<close>
  using ordering_term
    [of "[(''script'', PStr ''/usr/local/bin/handle_temperature.py''),
       (''conditions'', PDict [(''temperature'',
          PDict [(''operator'', PStr ''>''), (''threshold'', PInt 30)])])]"
        "''temperature''"
        "[(''operator'', PStr ''>''), (''threshold'', PInt 30)]"
        "PStr ''>''"
        "[(''temperature'', PFloat (Finite (65 / 2)))]"
        "PFloat (Finite (65 / 2))"
        \<open>''{"temperature": 32.5}''\<close>]
    ordering_term
    [of "[(''script'', PStr ''/usr/local/bin/handle_temperature.py''),
       (''conditions'', PDict [(''temperature'',
          PDict [(''operator'', PStr ''>''), (''threshold'', PInt 30)])])]"
        "''temperature''"
        "[(''operator'', PStr ''>''), (''threshold'', PInt 30)]"
        "PStr ''>''"
        "[(''temperature'', PStr ''hot'')]"
        "PStr ''hot''"
        \<open>''{"temperature": "hot"}''\<close>]
  by (simp add: dict_get_def get_threshold_def ordering_operators_def num_gt_def)

text \<open>
  With a number in the field and a threshold that is not a number the comparison itself
  raises: the threshold \<^verbatim>\<open>"30"\<close> is a string, and \<^verbatim>\<open>32.5 > "30"\<close> is a
  \<^verbatim>\<open>TypeError\<close>.
\<close>

theorem ordering_term_counterexample:
  \<open>should_execute_script
     [(''script'', PStr ''/usr/local/bin/handle_temperature.py''),
      (''conditions'', PDict [(''temperature'',
         PDict [(''operator'', PStr ''>''), (''threshold'', PStr ''30'')])])]
     ''{"temperature": 32.5}'' (Inr (PDict [(''temperature'', PFloat (Finite (65 / 2)))]))
   = Inl TypeError\<close>
  by (simp add: should_execute_script_def dict_get_def check_condition_def check_operator_def
        get_threshold_def ordered_def py_order_def)

subsection \<open>Literal terms\<close>

text \<open>
  Claim C5. A literal term on a field the payload has is satisfied exactly when the field's
  value equals the literal (\<^verbatim>\<open>==\<close>). Equality keeps strings and numbers apart: a string
  literal is matched by that very string and by nothing else, and a string value matches no
  literal but that very string. So the literal \<^verbatim>\<open>"online"\<close> matches the value
  \<^verbatim>\<open>"online"\<close>, and the literal \<^verbatim>\<open>1\<close> does not match the value \<^verbatim>\<open>"1"\<close>.
\<close>

theorem literal_term:
  assumes "dict_get topic_config ''conditions'' (PDict []) = PDict [(field, lit)]"
    and "operator_term lit = None"
    and "map_of d field = Some v"
  shows "should_execute_script topic_config payload (Inr (PDict d)) = Inr (py_eq v lit) \<and>
         (\<forall>s. lit = PStr s \<longrightarrow>
            should_execute_script topic_config payload (Inr (PDict d)) = Inr (v = PStr s)) \<and>
         (\<forall>s. v = PStr s \<longrightarrow>
            should_execute_script topic_config payload (Inr (PDict d)) = Inr (lit = PStr s))"
proof -
  have run: "should_execute_script topic_config payload (Inr (PDict d)) = Inr (py_eq v lit)"
    using assms
    by (simp add: should_execute_script_loaded check_condition_dict split: bool.splits)
  show ?thesis
    unfolding run by (simp add: py_eq_PStr py_eq_PStr_left)
qed

theorem literal_term_witness:
  \<open>(dict_get [(''conditions'', PDict [(''status'', PStr ''online'')])] ''conditions'' (PDict [])
      = PDict [(''status'', PStr ''online'')] \<and>
    operator_term (PStr ''online'') = None \<and>
    map_of [(''status'', PStr ''online'')] ''status'' = Some (PStr ''online'') \<and>
    should_execute_script [(''conditions'', PDict [(''status'', PStr ''online'')])]
      ''{"status": "online"}'' (Inr (PDict [(''status'', PStr ''online'')])) = Inr True) \<and>
   (dict_get [(''conditions'', PDict [(''status'', PInt 1)])] ''conditions'' (PDict [])
      = PDict [(''status'', PInt 1)] \<and>
    operator_term (PInt 1) = None \<and>
    map_of [(''status'', PStr ''1'')] ''status'' = Some (PStr ''1'') \<and>
    should_execute_script [(''conditions'', PDict [(''status'', PInt 1)])]
      ''{"status": "1"}'' (Inr (PDict [(''status'', PStr ''1'')])) = Inr False)\<close>
  using literal_term
      [of "[(''conditions'', PDict [(''status'', PStr ''online'')])]" "''status''"
          "PStr ''online''" "[(''status'', PStr ''online'')]" "PStr ''online''"
          \<open>''{"status": "online"}''\<close>]
    literal_term
      [of "[(''conditions'', PDict [(''status'', PInt 1)])]" "''status''"
          "PInt 1" "[(''status'', PStr ''1'')]" "PStr ''1''"
          \<open>''{"status": "1"}''\<close>]
  by (simp add: dict_get_def)

subsection \<open>Operators outside the six\<close>

text \<open>
  Claim C9. An operator term whose operator is none of \<^verbatim>\<open>>\<close>, \<^verbatim>\<open><\<close>, \<^verbatim>\<open>>=\<close>,
  \<^verbatim>\<open><=\<close>, \<^verbatim>\<open>==\<close>, \<^verbatim>\<open>!=\<close>, on a field the decoded payload has, falls through every
  branch: the iteration neither returns \<^verbatim>\<open>False\<close> nor raises, and the result of
  \<^verbatim>\<open>should_execute_script\<close> is the result for the condition set without that term.
\<close>

theorem unknown_operator_unconstrained:
  assumes "dict_get topic_config ''conditions'' (PDict []) = PDict (C1 @ (field, PDict e) # C2)"
    and "dict_get topic_config' ''conditions'' (PDict []) = PDict (C1 @ C2)"
    and "map_of e ''operator'' = Some operator"
    and "operator \<notin> set (ordering_operators @ [PStr ''=='', PStr ''!=''])"
    and "map_of d field = Some v"
  shows "check_condition (PDict d) field (PDict e) = Inr True \<and>
         should_execute_script topic_config payload (Inr (PDict d)) =
         should_execute_script topic_config' payload (Inr (PDict d))"
proof -
  have one: "check_condition (PDict d) field (PDict e) = Inr True"
    using assms(3,4,5)
    by (simp add: check_condition_dict check_operator_def dict_get_def py_eq_PStr
          ordering_operators_def)
  have "check_conditions (PDict d) (C1 @ (field, PDict e) # C2)
          = check_conditions (PDict d) (C1 @ C2)"
    by (simp add: check_conditions_append one split: sum.splits bool.splits)
  with one show ?thesis
    by (simp add: should_execute_script_loaded [OF assms(1)]
          should_execute_script_loaded [OF assms(2)])
qed

theorem unknown_operator_unconstrained_witness:
  \<open>dict_get
      [(''conditions'', PDict [(''status'', PStr ''offline''),
          (''temperature'', PDict [(''operator'', PStr ''between''), (''threshold'', PInt 5)])])]
      ''conditions'' (PDict [])
    = PDict [(''status'', PStr ''offline''),
          (''temperature'', PDict [(''operator'', PStr ''between''), (''threshold'', PInt 5)])] \<and>
   dict_get [(''conditions'', PDict [(''status'', PStr ''offline'')])]
      ''conditions'' (PDict [])
    = PDict [(''status'', PStr ''offline'')] \<and>
   map_of [(''operator'', PStr ''between''), (''threshold'', PInt 5)] ''operator''
    = Some (PStr ''between'') \<and>
   PStr ''between'' \<notin> set (ordering_operators @ [PStr ''=='', PStr ''!='']) \<and>
   map_of [(''status'', PStr ''offline''), (''temperature'', PInt 20)] ''temperature''
    = Some (PInt 20) \<and>
   check_condition (PDict [(''status'', PStr ''offline''), (''temperature'', PInt 20)])
      ''temperature'' (PDict [(''operator'', PStr ''between''), (''threshold'', PInt 5)])
    = Inr True \<and>
   should_execute_script
      [(''conditions'', PDict [(''status'', PStr ''offline''),
          (''temperature'', PDict [(''operator'', PStr ''between''), (''threshold'', PInt 5)])])]
      ''{"status": "offline", "temperature": 20}''
      (Inr (PDict [(''status'', PStr ''offline''), (''temperature'', PInt 20)]))
    = should_execute_script
      [(''conditions'', PDict [(''status'', PStr ''offline'')])]
      ''{"status": "offline", "temperature": 20}''
      (Inr (PDict [(''status'', PStr ''offline''), (''temperature'', PInt 20)]))\<close>
  using unknown_operator_unconstrained
    [of "[(''conditions'', PDict [(''status'', PStr ''offline''),
          (''temperature'', PDict [(''operator'', PStr ''between''), (''threshold'', PInt 5)])])]"
        "[(''status'', PStr ''offline'')]"
        "''temperature''"
        "[(''operator'', PStr ''between''), (''threshold'', PInt 5)]"
        "[]"
        "[(''conditions'', PDict [(''status'', PStr ''offline'')])]"
        "PStr ''between''"
        "[(''status'', PStr ''offline''), (''temperature'', PInt 20)]"
        "PInt 20"
        \<open>''{"status": "offline", "temperature": 20}''\<close>]
  by (simp add: dict_get_def ordering_operators_def)

subsection \<open>The two spellings of the threshold\<close>

text \<open>
  Claim C10. The threshold of an operator term is the value of its key \<^verbatim>\<open>threshold\<close>;
  when that key is absent it is the value of the key \<^verbatim>\<open>value\<close>, and \<^verbatim>\<open>None\<close> when both
  are absent. Two condition sets that differ only in spelling the same threshold of one term
  with \<^verbatim>\<open>threshold\<close> or with \<^verbatim>\<open>value\<close> give the same result on every payload.
  The value so selected is the one the operator compares with: for a condition set of one
  operator term on a field the payload has, the result is the operator's comparison of the
  field's value with the value of \<^verbatim>\<open>threshold\<close>, else of \<^verbatim>\<open>value\<close>, else \<^verbatim>\<open>None\<close>
  (an ordering of a number with a threshold that is not a number raises \<^verbatim>\<open>TypeError\<close>).
\<close>

theorem threshold_or_value:
  assumes "map_of e ''operator'' = Some operator"
    and "map_of e' ''operator'' = Some operator"
    and "map_of e ''threshold'' = Some t"
    and "map_of e' ''threshold'' = None"
    and "map_of e' ''value'' = Some t"
    and "dict_get topic_config ''conditions'' (PDict []) = PDict (C1 @ (key, PDict e) # C2)"
    and "dict_get topic_config' ''conditions'' (PDict []) = PDict (C1 @ (key, PDict e') # C2)"
  shows "get_threshold e = t \<and> get_threshold e' = t \<and>
         (\<forall>x. map_of x ''threshold'' = None \<and> map_of x ''value'' = None
               \<longrightarrow> get_threshold x = PNone) \<and>
         should_execute_script topic_config payload loaded =
         should_execute_script topic_config' payload loaded \<and>
         (\<forall>x op tc field d v.
            dict_get tc ''conditions'' (PDict []) = PDict [(field, PDict x)] \<and>
            map_of x ''operator'' = Some op \<and> map_of d field = Some v \<longrightarrow>
            should_execute_script tc payload (Inr (PDict d)) =
              (let threshold =
                     (case map_of x ''threshold'' of
                        Some th \<Rightarrow> th
                      | None \<Rightarrow> (case map_of x ''value'' of Some th \<Rightarrow> th | None \<Rightarrow> PNone))
               in if op = PStr ''>'' then
                    (case num_of v of
                       None \<Rightarrow> Inr False
                     | Some a \<Rightarrow> (case num_of threshold of
                                    None \<Rightarrow> Inl TypeError
                                  | Some b \<Rightarrow> Inr (num_lt b a)))
                  else if op = PStr ''<'' then
                    (case num_of v of
                       None \<Rightarrow> Inr False
                     | Some a \<Rightarrow> (case num_of threshold of
                                    None \<Rightarrow> Inl TypeError
                                  | Some b \<Rightarrow> Inr (num_lt a b)))
                  else if op = PStr ''>='' then
                    (case num_of v of
                       None \<Rightarrow> Inr False
                     | Some a \<Rightarrow> (case num_of threshold of
                                    None \<Rightarrow> Inl TypeError
                                  | Some b \<Rightarrow> Inr (num_lt b a \<or> num_eq b a)))
                  else if op = PStr ''<='' then
                    (case num_of v of
                       None \<Rightarrow> Inr False
                     | Some a \<Rightarrow> (case num_of threshold of
                                    None \<Rightarrow> Inl TypeError
                                  | Some b \<Rightarrow> Inr (num_lt a b \<or> num_eq a b)))
                  else if op = PStr ''=='' then Inr (py_eq v threshold)
                  else if op = PStr ''!='' then Inr (\<not> py_eq v threshold)
                  else Inr True))"
proof -
  have t: "get_threshold e = t" and t': "get_threshold e' = t"
    using assms(3,4,5) by (simp_all add: get_threshold_eq)
  have one: "check_condition data key (PDict e) = check_condition data key (PDict e')"
    for data
    using assms(1,2)
    by (simp add: check_condition_def t t' dict_get_def split: sum.splits bool.splits)
  have "check_conditions data (C1 @ (key, PDict e) # C2)
          = check_conditions data (C1 @ (key, PDict e') # C2)" for data
    by (simp add: check_conditions_append one split: sum.splits bool.splits)
  then have same: "should_execute_script topic_config payload loaded =
             should_execute_script topic_config' payload loaded"
    by (simp add: should_execute_script_items [OF assms(6)]
          should_execute_script_items [OF assms(7)] split: sum.splits)
  have used: "should_execute_script tc payload (Inr (PDict d)) =
                check_operator op (get_threshold x) v"
    if "dict_get tc ''conditions'' (PDict []) = PDict [(field, PDict x)]"
      and "map_of x ''operator'' = Some op" and "map_of d field = Some v"
    for x op tc field d v
    using that
    by (simp add: should_execute_script_loaded check_condition_dict dict_get_def
          split: sum.splits bool.splits)
  have explicit: "check_operator op (get_threshold x) v =
              (let threshold =
                     (case map_of x ''threshold'' of
                        Some th \<Rightarrow> th
                      | None \<Rightarrow> (case map_of x ''value'' of Some th \<Rightarrow> th | None \<Rightarrow> PNone))
               in if op = PStr ''>'' then
                    (case num_of v of
                       None \<Rightarrow> Inr False
                     | Some a \<Rightarrow> (case num_of threshold of
                                    None \<Rightarrow> Inl TypeError
                                  | Some b \<Rightarrow> Inr (num_lt b a)))
                  else if op = PStr ''<'' then
                    (case num_of v of
                       None \<Rightarrow> Inr False
                     | Some a \<Rightarrow> (case num_of threshold of
                                    None \<Rightarrow> Inl TypeError
                                  | Some b \<Rightarrow> Inr (num_lt a b)))
                  else if op = PStr ''>='' then
                    (case num_of v of
                       None \<Rightarrow> Inr False
                     | Some a \<Rightarrow> (case num_of threshold of
                                    None \<Rightarrow> Inl TypeError
                                  | Some b \<Rightarrow> Inr (num_lt b a \<or> num_eq b a)))
                  else if op = PStr ''<='' then
                    (case num_of v of
                       None \<Rightarrow> Inr False
                     | Some a \<Rightarrow> (case num_of threshold of
                                    None \<Rightarrow> Inl TypeError
                                  | Some b \<Rightarrow> Inr (num_lt a b \<or> num_eq a b)))
                  else if op = PStr ''=='' then Inr (py_eq v threshold)
                  else if op = PStr ''!='' then Inr (\<not> py_eq v threshold)
                  else Inr True)"
    for x op v
    by (simp add: check_operator_def get_threshold_eq [symmetric] py_eq_PStr ordered_def
          py_order_def num_gt_def num_ge_def num_le_def Let_def split: option.splits)
  from t t' same used explicit show ?thesis
    by (simp add: get_threshold_eq)
qed


theorem threshold_or_value_witness:
  \<open>map_of [(''operator'', PStr ''>''), (''threshold'', PInt 30)] ''operator''
     = Some (PStr ''>'') \<and>
   map_of [(''operator'', PStr ''>''), (''value'', PInt 30)] ''operator''
     = Some (PStr ''>'') \<and>
   map_of [(''operator'', PStr ''>''), (''threshold'', PInt 30)] ''threshold''
     = Some (PInt 30) \<and>
   map_of [(''operator'', PStr ''>''), (''value'', PInt 30)] ''threshold'' = None \<and>
   map_of [(''operator'', PStr ''>''), (''value'', PInt 30)] ''value'' = Some (PInt 30) \<and>
   get_threshold [(''operator'', PStr ''>''), (''threshold'', PInt 30)] = PInt 30 \<and>
   get_threshold [(''operator'', PStr ''>''), (''value'', PInt 30)] = PInt 30 \<and>
   map_of [(''operator'', PStr ''>'')] ''threshold'' = None \<and>
   map_of [(''operator'', PStr ''>'')] ''value'' = None \<and>
   get_threshold [(''operator'', PStr ''>'')] = PNone \<and>
   should_execute_script
      [(''conditions'', PDict [(''temperature'',
          PDict [(''operator'', PStr ''>''), (''threshold'', PInt 30)])])]
      ''{"temperature": 32.5}'' (Inr (PDict [(''temperature'', PFloat (Finite (65 / 2)))]))
    = should_execute_script
      [(''conditions'', PDict [(''temperature'',
          PDict [(''operator'', PStr ''>''), (''value'', PInt 30)])])]
      ''{"temperature": 32.5}'' (Inr (PDict [(''temperature'', PFloat (Finite (65 / 2)))])) \<and>
   should_execute_script
      [(''conditions'', PDict [(''temperature'',
          PDict [(''operator'', PStr ''>''), (''threshold'', PInt 30)])])]
      ''{"temperature": 32.5}'' (Inr (PDict [(''temperature'', PFloat (Finite (65 / 2)))]))
    = Inr True \<and>
   should_execute_script
      [(''conditions'', PDict [(''temperature'',
          PDict [(''operator'', PStr ''>''), (''value'', PInt 30)])])]
      ''{"temperature": 32.5}'' (Inr (PDict [(''temperature'', PFloat (Finite (65 / 2)))]))
    = Inr True \<and>
   should_execute_script
      [(''conditions'', PDict [(''temperature'',
          PDict [(''operator'', PStr ''>''), (''value'', PInt 30)])])]
      ''{"temperature": 20}'' (Inr (PDict [(''temperature'', PInt 20)]))
    = Inr False \<and>
   should_execute_script
      [(''conditions'', PDict [(''temperature'', PDict [(''operator'', PStr ''>'')])])]
      ''{"temperature": 20}'' (Inr (PDict [(''temperature'', PInt 20)]))
    = Inl TypeError\<close>
proof -
  let ?e = "[(''operator'', PStr ''>''), (''threshold'', PInt 30)]"
  let ?e' = "[(''operator'', PStr ''>''), (''value'', PInt 30)]"
  let ?bare = "[(''operator'', PStr ''>'')]"
  let ?tc = "[(''conditions'', PDict [(''temperature'', PDict ?e)])]"
  let ?tc' = "[(''conditions'', PDict [(''temperature'', PDict ?e')])]"
  let ?tcb = "[(''conditions'', PDict [(''temperature'', PDict ?bare)])]"
  let ?payload = \<open>''{"temperature": 32.5}''\<close>
  let ?payload' = \<open>''{"temperature": 20}''\<close>
  let ?hot = "[(''temperature'', PFloat (Finite (65 / 2)))]"
  let ?cool = "[(''temperature'', PInt 20)]"
  have h1: "map_of ?e ''operator'' = Some (PStr ''>'')"
    and h2: "map_of ?e' ''operator'' = Some (PStr ''>'')"
    and h3: "map_of ?e ''threshold'' = Some (PInt 30)"
    and h4: "map_of ?e' ''threshold'' = None"
    and h5: "map_of ?e' ''value'' = Some (PInt 30)"
    and h6: "dict_get ?tc ''conditions'' (PDict []) = PDict ([] @ (''temperature'', PDict ?e) # [])"
    and h7: "dict_get ?tc' ''conditions'' (PDict []) = PDict ([] @ (''temperature'', PDict ?e') # [])"
    by (simp_all add: dict_get_def)
  note T = threshold_or_value [OF h1 h2 h3 h4 h5 h6 h7, of ?payload "Inr (PDict ?hot)"]
  note sel = T [THEN conjunct2, THEN conjunct2, THEN conjunct1, rule_format]
  note used = T [THEN conjunct2, THEN conjunct2, THEN conjunct2, THEN conjunct2, rule_format]
  note T' = threshold_or_value [OF h1 h2 h3 h4 h5 h6 h7, of ?payload' "Inr (PDict ?cool)"]
  note used' = T' [THEN conjunct2, THEN conjunct2, THEN conjunct2, THEN conjunct2, rule_format]
  have none: "get_threshold ?bare = PNone"
    by (rule sel) simp
  have r1: "should_execute_script ?tc ?payload (Inr (PDict ?hot)) = Inr True"
    by (subst used [of ?tc "''temperature''" ?e "PStr ''>''" ?hot "PFloat (Finite (65 / 2))"])
       (simp_all add: dict_get_def)
  have r2: "should_execute_script ?tc' ?payload (Inr (PDict ?hot)) = Inr True"
    by (subst used [of ?tc' "''temperature''" ?e' "PStr ''>''" ?hot "PFloat (Finite (65 / 2))"])
       (simp_all add: dict_get_def)
  have r3: "should_execute_script ?tc' ?payload' (Inr (PDict ?cool)) = Inr False"
    by (subst used' [of ?tc' "''temperature''" ?e' "PStr ''>''" ?cool "PInt 20"])
       (simp_all add: dict_get_def)
  have r4: "should_execute_script ?tcb ?payload' (Inr (PDict ?cool)) = Inl TypeError"
    by (subst used' [of ?tcb "''temperature''" ?bare "PStr ''>''" ?cool "PInt 20"])
       (simp_all add: dict_get_def)
  from T none r1 r2 r3 r4 show ?thesis
    by (simp add: h1 h2 h3 h4 h5)
qed

section \<open>Properties of the configuration merge\<close>

lemma merge_configs_Nil: "merge_configs dflt [] = dflt"
  by (simp add: merge_configs.simps [of dflt "[]"])

lemma merge_configs_Cons:
  "merge_configs dflt ((key, val) # user) =
     merge_configs
       (case (map_of dflt key, val) of
          (Some (PDict sub), PDict value') \<Rightarrow>
            AList.update key (PDict (merge_configs sub value')) dflt
        | _ \<Rightarrow> AList.update key val dflt)
       user"
  by (simp add: merge_configs.simps [of dflt "(key, val) # user"]
        merge_configs.simps [of _ user])

lemma merge_configs_distinct:
  "distinct (map fst dflt) \<Longrightarrow> distinct (map fst (merge_configs dflt user))"
proof (induction user arbitrary: dflt)
  case Nil
  then show ?case by (simp add: merge_configs_Nil)
next
  case (Cons p user)
  obtain k v where p: "p = (k, v)"
    by (cases p)
  show ?case
    unfolding p merge_configs_Cons
    by (rule Cons.IH) (simp add: Cons.prems distinct_update split: option.splits pyval.splits)
qed

text \<open>
  Claim C8. \<^verbatim>\<open>merge_configs(default, user)\<close> is the key-by-key merge of \<^verbatim>\<open>user\<close> over
  \<^verbatim>\<open>default\<close>: a key that \<^verbatim>\<open>user\<close> lacks keeps the value it has in \<^verbatim>\<open>default\<close>; a key
  whose values in both are dicts gets the merge of the two dicts; every other key of
  \<^verbatim>\<open>user\<close> gets the value \<^verbatim>\<open>user\<close> gives it. The keys of \<^verbatim>\<open>user\<close> are distinct, as
  those of a dict are.
\<close>

theorem merge_configs_lookup:
  assumes "distinct (map fst user)"
  shows "map_of (merge_configs dflt user) key =
           (case map_of user key of
              None \<Rightarrow> map_of dflt key
            | Some val \<Rightarrow>
                (case (map_of dflt key, val) of
                   (Some (PDict sub), PDict value') \<Rightarrow> Some (PDict (merge_configs sub value'))
                 | _ \<Rightarrow> Some val))"
  using assms
proof (induction user arbitrary: dflt)
  case Nil
  show ?case by (simp add: merge_configs_Nil)
next
  case (Cons p user)
  obtain k v where p: "p = (k, v)"
    by (cases p)
  define step where
    "step = (case (map_of dflt k, v) of
               (Some (PDict sub), PDict value') \<Rightarrow>
                 AList.update k (PDict (merge_configs sub value')) dflt
             | _ \<Rightarrow> AList.update k v dflt)"
  from Cons.prems have fresh: "map_of user k = None" and rest: "distinct (map fst user)"
    by (simp_all add: p map_of_eq_None_iff)
  have unfold: "merge_configs dflt (p # user) = merge_configs step user"
    by (simp add: p merge_configs_Cons step_def)
  have IH: "map_of (merge_configs step user) key =
              (case map_of user key of
                 None \<Rightarrow> map_of step key
               | Some val \<Rightarrow>
                   (case (map_of step key, val) of
                      (Some (PDict sub), PDict value') \<Rightarrow>
                        Some (PDict (merge_configs sub value'))
                    | _ \<Rightarrow> Some val))"
    by (rule Cons.IH [OF rest])
  show ?case
  proof (cases "key = k")
    case True
    have "map_of step k =
            (case (map_of dflt k, v) of
               (Some (PDict sub), PDict value') \<Rightarrow> Some (PDict (merge_configs sub value'))
             | _ \<Rightarrow> Some v)"
      by (simp add: step_def update_conv' split: option.splits pyval.splits)
    with True fresh show ?thesis
      unfolding unfold IH by (simp add: p)
  next
    case False
    have other: "map_of step key = map_of dflt key"
      using False by (simp add: step_def update_conv' split: option.splits pyval.splits)
    from False show ?thesis
      unfolding unfold IH other by (simp add: p)
  qed
qed

theorem merge_configs_lookup_witness:
  "distinct (map fst [(''mqtt'', PDict [(''port'', PInt 8883)]), (''topics'', PDict [])]) \<and>
   map_of
     (merge_configs
        [(''mqtt'', PDict [(''broker'', PStr ''localhost''), (''port'', PInt 1883)]),
         (''logging'', PDict [(''level'', PStr ''INFO'')])]
        [(''mqtt'', PDict [(''port'', PInt 8883)]), (''topics'', PDict [])])
     ''mqtt''
   = Some (PDict [(''broker'', PStr ''localhost''), (''port'', PInt 8883)])"
  using merge_configs_lookup
    [of "[(''mqtt'', PDict [(''port'', PInt 8883)]), (''topics'', PDict [])]"
        "[(''mqtt'', PDict [(''broker'', PStr ''localhost''), (''port'', PInt 1883)]),
          (''logging'', PDict [(''level'', PStr ''INFO'')])]"
        "''mqtt''"]
  by (simp add: merge_configs_Nil merge_configs_Cons)

section \<open>Properties of the dispatcher\<close>

text \<open>
  Claim C7, as the source has it. When the script path does not exist,
  \<^verbatim>\<open>execute_script\<close> logs one error, \<^verbatim>\<open>Script not found\<close>, does not call
  \<^verbatim>\<open>subprocess.run\<close>, and returns.
\<close>

theorem missing_script_skipped:
  assumes "script_path \<notin> set (existing_paths w)"
  shows "execute_script w st script_path topic payload
           = st\<lparr>logged := logged st @ [(ERROR, ''Script not found: '' @ script_path)]\<rparr> \<and>
         run_calls (execute_script w st script_path topic payload) = run_calls st"
  using assms by (simp add: execute_script_def log_call_def)

theorem missing_script_skipped_witness:
  "''/usr/local/bin/handle_temperature.py''
     \<notin> set (existing_paths
          \<lparr>existing_paths = [], executable_paths = [], os_environ = [],
           sys_executable = ''/usr/bin/python3'', subprocess_run = Completed 0 [] []\<rparr>) \<and>
   execute_script
     \<lparr>existing_paths = [], executable_paths = [], os_environ = [],
      sys_executable = ''/usr/bin/python3'', subprocess_run = Completed 0 [] []\<rparr>
     \<lparr>logged = [], run_calls = []\<rparr>
     ''/usr/local/bin/handle_temperature.py'' ''sensor/temperature'' ''32.5''
   = \<lparr>logged = [(ERROR, ''Script not found: /usr/local/bin/handle_temperature.py'')],
      run_calls = []\<rparr>"
  using missing_script_skipped
    [of "''/usr/local/bin/handle_temperature.py''"
        "\<lparr>existing_paths = [], executable_paths = [], os_environ = [],
          sys_executable = ''/usr/bin/python3'', subprocess_run = Completed 0 [] []\<rparr>"
        "\<lparr>logged = [], run_calls = []\<rparr>" "''sensor/temperature''" "''32.5''"]
  by simp

text \<open>
  The source has no test of the execute permission: the script is handed to the Python
  interpreter, \<^verbatim>\<open>[sys.executable, script_path]\<close>. A script that exists and is not
  executable is therefore run like any other.
\<close>

theorem missing_script_skipped_counterexample:
  "''/usr/local/bin/handle_temperature.py''
     \<notin> set (executable_paths
          \<lparr>existing_paths = [''/usr/local/bin/handle_temperature.py''],
           executable_paths = [], os_environ = [],
           sys_executable = ''/usr/bin/python3'', subprocess_run = Completed 0 [] []\<rparr>) \<and>
   execute_script
     \<lparr>existing_paths = [''/usr/local/bin/handle_temperature.py''],
      executable_paths = [], os_environ = [],
      sys_executable = ''/usr/bin/python3'', subprocess_run = Completed 0 [] []\<rparr>
     \<lparr>logged = [], run_calls = []\<rparr>
     ''/usr/local/bin/handle_temperature.py'' ''sensor/temperature'' ''32.5''
   = \<lparr>logged = [(INFO,
        ''Script /usr/local/bin/handle_temperature.py executed successfully'')],
      run_calls = [([''/usr/bin/python3'', ''/usr/local/bin/handle_temperature.py''],
                    [(''MQTT_TOPIC'', ''sensor/temperature''), (''MQTT_PAYLOAD'', ''32.5'')])]\<rparr>"
  by (simp add: execute_script_def log_call_def)

end
